theory Spec2Isabelle
  imports Complex_Main
begin

section \<open>Numeric arrays and Python errors\<close>

text \<open>
  The optimisation layer of yaglm works on numpy arrays of floats. An array is its shape
  together with its entries in row-major order. Floats are idealised as real numbers, and
  a Python or numpy scalar is the array of shape \<open>[]\<close> with one entry. An exception
  is a value \<open>Inl e\<close> of the result type.
\<close>

datatype error =
    NotImplementedError
  | AttributeError
  | ValueError
  | ZeroDivisionError
  | IndexError
  | TypeError
  | AssertionError
  | OutsideModel

record ndarray =
  shape :: "nat list"
  data :: "real list"

type_synonym 'a result = "error + 'a"

definition wf :: "ndarray \<Rightarrow> bool" where
  "wf a = (length (data a) = prod_list (shape a))"

definition scalar :: "real \<Rightarrow> ndarray" where
  "scalar c = \<lparr>shape = [], data = [c]\<rparr>"

definition ebind :: "'a result \<Rightarrow> ('a \<Rightarrow> 'b result) \<Rightarrow> 'b result" where
  "ebind m k = (case m of Inl e \<Rightarrow> Inl e | Inr v \<Rightarrow> k v)"

text \<open>\<open>np.zeros_like(x)\<close>, \<open>x.reshape(-1)\<close> and \<open>g.reshape(s)\<close>.\<close>

definition zeros_like :: "ndarray \<Rightarrow> ndarray" where
  "zeros_like x = \<lparr>shape = shape x, data = map (\<lambda>_. 0) (data x)\<rparr>"

definition reshape_flat :: "ndarray \<Rightarrow> ndarray" where
  "reshape_flat x = \<lparr>shape = [prod_list (shape x)], data = data x\<rparr>"

definition reshape :: "ndarray \<Rightarrow> nat list \<Rightarrow> ndarray result" where
  "reshape g s =
     (if prod_list s = prod_list (shape g) then Inr \<lparr>shape = s, data = data g\<rparr>
      else Inl ValueError)"

text \<open>
  Arithmetic between an array and a Python float is entrywise. Arithmetic between two
  arrays follows numpy's broadcasting: shapes are aligned at their last axis, two axis
  lengths are compatible when they are equal or one of them is 1, and an axis of length 1
  is repeated.
\<close>

definition scalar_op :: "(real \<Rightarrow> real) \<Rightarrow> ndarray \<Rightarrow> ndarray" where
  "scalar_op f x = \<lparr>shape = shape x, data = map f (data x)\<rparr>"

fun bcast_rev :: "nat list \<Rightarrow> nat list \<Rightarrow> nat list option" where
  "bcast_rev [] ys = Some ys"
| "bcast_rev xs [] = Some xs"
| "bcast_rev (x # xs) (y # ys) =
     (if x = y \<or> y = 1 then map_option ((#) x) (bcast_rev xs ys)
      else if x = 1 then map_option ((#) y) (bcast_rev xs ys)
      else None)"

definition broadcast_shapes :: "nat list \<Rightarrow> nat list \<Rightarrow> nat list option" where
  "broadcast_shapes s t = map_option rev (bcast_rev (rev s) (rev t))"

fun expand :: "nat list \<Rightarrow> nat list \<Rightarrow> real list \<Rightarrow> real list" where
  "expand (t # ts) (s # ss) d =
     (if s = t
      then concat (map (\<lambda>k. expand ts ss (take (prod_list ss) (drop (k * prod_list ss) d)))
                       [0..<s])
      else concat (replicate t (expand ts ss d)))"
| "expand ts ss d = d"

definition broadcast_to :: "nat list \<Rightarrow> ndarray \<Rightarrow> real list" where
  "broadcast_to t a =
     expand t (replicate (length t - length (shape a)) 1 @ shape a) (data a)"

definition broadcast_pair :: "ndarray \<Rightarrow> ndarray \<Rightarrow> (nat list \<times> (real \<times> real) list) result" where
  "broadcast_pair a b =
     (if shape a = shape b then Inr (shape a, zip (data a) (data b))
      else (case broadcast_shapes (shape a) (shape b) of
              None \<Rightarrow> Inl ValueError
            | Some t \<Rightarrow> Inr (t, zip (broadcast_to t a) (broadcast_to t b))))"

definition np_binop :: "(real \<Rightarrow> real \<Rightarrow> real) \<Rightarrow> ndarray \<Rightarrow> ndarray \<Rightarrow> ndarray result" where
  "np_binop f a b =
     ebind (broadcast_pair a b)
       (\<lambda>(t, ps). Inr \<lparr>shape = t, data = map (\<lambda>(u, v). f u v) ps\<rparr>)"

definition np_add :: "ndarray \<Rightarrow> ndarray \<Rightarrow> ndarray result" where
  "np_add = np_binop (+)"

definition np_sub :: "ndarray \<Rightarrow> ndarray \<Rightarrow> ndarray result" where
  "np_sub = np_binop (-)"

section \<open>The function contract of \<open>yaglm/opt/base.py\<close>\<close>

text \<open>
  A subclass of \<open>Func\<close> supplies the hooks \<open>_eval\<close>, \<open>_grad\<close>, \<open>_prox\<close>, may set the
  attribute \<open>_grad_lip\<close>, and may define the properties \<open>is_smooth\<close> and
  \<open>is_proximable\<close> and a method \<open>capabilities\<close>. A field is \<open>None\<close> when the subclass
  leaves the member to \<open>Func\<close>, whose hooks and properties raise
  \<open>NotImplementedError\<close> and which has no \<open>capabilities\<close>. The members with a
  leading underscore are the fields \<open>priv_eval\<close>, \<open>priv_grad\<close>, \<open>priv_prox\<close> and
  \<open>priv_grad_lip\<close>. \<open>Leaf\<close> is a direct subclass of \<open>Func\<close> and \<open>EntrywiseLeaf\<close> a
  subclass of \<open>EntrywiseFunc\<close>.
\<close>

record impl =
  priv_eval :: "(ndarray \<Rightarrow> ndarray result) option"
  priv_grad :: "(ndarray \<Rightarrow> ndarray result) option"
  priv_prox :: "(ndarray \<Rightarrow> real \<Rightarrow> ndarray result) option"
  priv_grad_lip :: "real option"
  smooth_prop :: "bool option"
  proximable_prop :: "bool option"
  capabilities_meth :: "(ndarray \<Rightarrow> string list result) option"

datatype func =
    Leaf impl
  | EntrywiseLeaf impl
  | Zero
  | Sum "func list"

definition call_hook :: "('a \<Rightarrow> 'b result) option \<Rightarrow> 'a \<Rightarrow> 'b result" where
  "call_hook h x = (case h of None \<Rightarrow> Inl NotImplementedError | Some f \<Rightarrow> f x)"

fun eval :: "func \<Rightarrow> ndarray \<Rightarrow> ndarray result"
  and eval_sum :: "ndarray \<Rightarrow> func list \<Rightarrow> ndarray \<Rightarrow> ndarray result" where
  "eval (Leaf i) x = call_hook (priv_eval i) x"
| "eval (EntrywiseLeaf i) x = call_hook (priv_eval i) (reshape_flat x)"
| "eval Zero x = Inr (scalar 0)"
| "eval (Sum fs) x = eval_sum (scalar 0) fs x"
| "eval_sum acc [] x = Inr acc"
| "eval_sum acc (f # fs) x =
     ebind (eval f x) (\<lambda>v. ebind (np_add acc v) (\<lambda>acc'. eval_sum acc' fs x))"

fun grad :: "func \<Rightarrow> ndarray \<Rightarrow> ndarray result"
  and grad_sum :: "ndarray \<Rightarrow> func list \<Rightarrow> ndarray \<Rightarrow> ndarray result" where
  "grad (Leaf i) x = call_hook (priv_grad i) x"
| "grad (EntrywiseLeaf i) x =
     ebind (call_hook (priv_grad i) (reshape_flat x)) (\<lambda>g. reshape g (shape x))"
| "grad Zero x = Inr (zeros_like x)"
| "grad (Sum fs) x = grad_sum (scalar 0) fs x"
| "grad_sum acc [] x = Inr acc"
| "grad_sum acc (f # fs) x =
     ebind (grad f x) (\<lambda>v. ebind (np_add acc v) (\<lambda>acc'. grad_sum acc' fs x))"

definition call_hook2 :: "('a \<Rightarrow> 'c \<Rightarrow> 'b result) option \<Rightarrow> 'a \<Rightarrow> 'c \<Rightarrow> 'b result" where
  "call_hook2 h x s = (case h of None \<Rightarrow> Inl NotImplementedError | Some f \<Rightarrow> f x s)"

fun prox :: "func \<Rightarrow> ndarray \<Rightarrow> real \<Rightarrow> ndarray result" where
  "prox (Leaf i) x step = call_hook2 (priv_prox i) x step"
| "prox (EntrywiseLeaf i) x step =
     ebind (call_hook2 (priv_prox i) (reshape_flat x) step) (\<lambda>p. reshape p (shape x))"
| "prox Zero x step = Inr x"
| "prox (Sum fs) x step = Inl NotImplementedError"

text \<open>
  \<open>Func.conj_prox\<close> is defined once, for every subclass. The step is a Python float, so
  \<open>1/step\<close> raises \<open>ZeroDivisionError\<close> at 0 (the quotient \<open>x / step\<close> before it only
  warns).
\<close>

definition conj_prox :: "func \<Rightarrow> ndarray \<Rightarrow> real \<Rightarrow> ndarray result" where
  "conj_prox f x step =
     (if step = 0 then Inl ZeroDivisionError
      else ebind (prox f (scalar_op (\<lambda>a. a / step) x) (1 / step))
             (\<lambda>p. np_sub x (scalar_op (\<lambda>b. step * b) p)))"

fun grad_lip :: "func \<Rightarrow> real option"
  and grad_lip_loop :: "real \<Rightarrow> func list \<Rightarrow> real option" where
  "grad_lip (Leaf i) = priv_grad_lip i"
| "grad_lip (EntrywiseLeaf i) = priv_grad_lip i"
| "grad_lip Zero = Some 0"
| "grad_lip (Sum fs) = grad_lip_loop 0 fs"
| "grad_lip_loop lip [] = Some lip"
| "grad_lip_loop lip (f # fs) =
     (case grad_lip f of None \<Rightarrow> None | Some flip \<Rightarrow> grad_lip_loop (lip + flip) fs)"

definition read_prop :: "bool option \<Rightarrow> bool result" where
  "read_prop p = (case p of None \<Rightarrow> Inl NotImplementedError | Some b \<Rightarrow> Inr b)"

fun is_smooth :: "func \<Rightarrow> bool result"
  and all_smooth :: "func list \<Rightarrow> bool result" where
  "is_smooth (Leaf i) = read_prop (smooth_prop i)"
| "is_smooth (EntrywiseLeaf i) = read_prop (smooth_prop i)"
| "is_smooth Zero = Inr True"
| "is_smooth (Sum fs) = all_smooth fs"
| "all_smooth [] = Inr True"
| "all_smooth (f # fs) =
     ebind (is_smooth f) (\<lambda>b. if b then all_smooth fs else Inr False)"

fun is_proximable :: "func \<Rightarrow> bool result" where
  "is_proximable (Leaf i) = read_prop (proximable_prop i)"
| "is_proximable (EntrywiseLeaf i) = read_prop (proximable_prop i)"
| "is_proximable Zero = Inr True"
| "is_proximable (Sum fs) = Inr False"

section \<open>The Huber loss of \<open>ya_glm/opt/huber_regression.py\<close>\<close>

definition huber_eval_1d :: "real \<Rightarrow> real \<Rightarrow> real" where
  "huber_eval_1d x knot =
     (let x_abs = \<bar>x\<bar> in
      if x_abs \<le> knot then 0.5 * x\<^sup>2 else knot * (x_abs - 0.5 * knot))"

definition huber_grad_1d :: "real \<Rightarrow> real \<Rightarrow> real" where
  "huber_grad_1d x knot = (if \<bar>x\<bar> \<le> knot then x else knot * sgn x)"

definition safe_vectorize :: "(real \<Rightarrow> real \<Rightarrow> real) \<Rightarrow> ndarray \<Rightarrow> real \<Rightarrow> ndarray" where
  \<comment> \<open>Modelled from the spec: \<open>ya_glm.opt.utils.safe_vectorize\<close> is not among the sources;
      the spec has the scalar kernels applied entrywise to the residual array.\<close>
  "safe_vectorize f x knot = \<lparr>shape = shape x, data = map (\<lambda>z. f z knot) (data x)\<rparr>"

definition huber_eval :: "ndarray \<Rightarrow> real \<Rightarrow> ndarray" where
  "huber_eval x knot = scalar (sum_list (data (safe_vectorize huber_eval_1d x knot)))"

definition huber_grad :: "ndarray \<Rightarrow> real \<Rightarrow> ndarray" where
  "huber_grad x knot = safe_vectorize huber_grad_1d x knot"

text \<open>
  The matrix operations of the loss, for a design matrix of two axes and vectors of one
  axis, as the docstring of \<open>HuberRegLoss\<close> declares them; other ranks are
  \<open>OutsideModel\<close>, and nothing is claimed about them.
\<close>

definition shape_at :: "ndarray \<Rightarrow> nat \<Rightarrow> nat result" where
  "shape_at a i = (if i < length (shape a) then Inr (shape a ! i) else Inl IndexError)"

definition np_transpose :: "ndarray \<Rightarrow> ndarray result" where
  "np_transpose a =
     (case shape a of
        [] \<Rightarrow> Inr a
      | [n] \<Rightarrow> Inr a
      | [r, c] \<Rightarrow>
          Inr \<lparr>shape = [c, r],
               data = concat (map (\<lambda>j. map (\<lambda>i. data a ! (i * c + j)) [0..<r]) [0..<c])\<rparr>
      | _ \<Rightarrow> Inl OutsideModel)"

definition np_matmul :: "ndarray \<Rightarrow> ndarray \<Rightarrow> ndarray result" where
  "np_matmul a v =
     (case (shape a, shape v) of
        ([r, c], [m]) \<Rightarrow>
          if c = m
          then Inr \<lparr>shape = [r],
                    data = map (\<lambda>i. sum_list (map (\<lambda>j. data a ! (i * c + j) * data v ! j) [0..<c]))
                               [0..<r]\<rparr>
          else Inl ValueError
      | _ \<Rightarrow> Inl OutsideModel)"

definition np_mean :: "ndarray \<Rightarrow> real result" where
  \<comment> \<open>numpy's mean of an empty array is nan, which the reals do not have\<close>
  "np_mean g =
     (if data g = [] then Inl OutsideModel
      else Inr (sum_list (data g) / real (length (data g))))"

definition np_concatenate1 :: "real \<Rightarrow> ndarray \<Rightarrow> ndarray result" where
  \<comment> \<open>\<open>np.concatenate([[c], v])\<close>\<close>
  "np_concatenate1 c v =
     (case shape v of
        [m] \<Rightarrow> Inr \<lparr>shape = [Suc m], data = c # data v\<rparr>
      | _ \<Rightarrow> Inl ValueError)"

definition safe_data_mat_coef_dot :: "ndarray \<Rightarrow> ndarray \<Rightarrow> bool \<Rightarrow> ndarray result" where
  \<comment> \<open>Modelled from the spec: \<open>ya_glm.opt.utils.safe_data_mat_coef_dot\<close> is not among the
      sources; the spec has the linear prediction \<open>X\<beta> + b\<close>, the intercept \<open>b\<close> first in
      the coefficient vector when it is fitted.\<close>
  "safe_data_mat_coef_dot X coef fit_intercept =
     (case shape coef of
        [m] \<Rightarrow>
          if fit_intercept
          then (case data coef of
                  [] \<Rightarrow> Inl IndexError
                | b # beta \<Rightarrow>
                    ebind (np_matmul X \<lparr>shape = [m - 1], data = beta\<rparr>)
                      (\<lambda>z. Inr (scalar_op (\<lambda>v. v + b) z)))
          else np_matmul X coef
      | _ \<Rightarrow> Inl OutsideModel)"

record huber_reg_loss =
  loss_fit_intercept :: bool
  loss_X :: ndarray
  loss_y :: ndarray
  loss_knot :: real
  loss_grad_lip :: real

text \<open>
  \<open>get_lin_reg_lip\<close> of \<open>ya_glm.opt.linear_regression\<close> is not among the sources: the
  constructors take it as the parameter \<open>glr\<close>.
\<close>

definition HuberRegLoss_init ::
  "(ndarray \<Rightarrow> bool \<Rightarrow> real result) \<Rightarrow> ndarray \<Rightarrow> ndarray \<Rightarrow> real \<Rightarrow> bool \<Rightarrow> real option
     \<Rightarrow> huber_reg_loss result" where
  "HuberRegLoss_init glr X y knot fit_intercept lip =
     ebind (case lip of None \<Rightarrow> glr X fit_intercept | Some l \<Rightarrow> Inr l)
       (\<lambda>l. Inr \<lparr>loss_fit_intercept = fit_intercept, loss_X = X, loss_y = y,
                 loss_knot = knot, loss_grad_lip = l\<rparr>)"

record huber_reg_multi_resp_loss = huber_reg_loss +
  coef_shape :: "nat list"

definition HuberRegMultiRespLoss_init ::
  "(ndarray \<Rightarrow> bool \<Rightarrow> real result) \<Rightarrow> ndarray \<Rightarrow> ndarray \<Rightarrow> real \<Rightarrow> bool \<Rightarrow> real option
     \<Rightarrow> huber_reg_multi_resp_loss result" where
  "HuberRegMultiRespLoss_init glr X y knot fit_intercept lip =
     ebind (shape_at X 1) (\<lambda>d.
     ebind (shape_at y 1) (\<lambda>k.
     ebind (case lip of None \<Rightarrow> glr X fit_intercept | Some l \<Rightarrow> Inr l)
       (\<lambda>l. Inr \<lparr>loss_fit_intercept = fit_intercept, loss_X = X, loss_y = y,
                 loss_knot = knot, loss_grad_lip = l,
                 coef_shape = (if fit_intercept then [d + 1, k] else [d, k])\<rparr>)))"

definition HuberRegLoss_eval :: "huber_reg_loss \<Rightarrow> ndarray \<Rightarrow> ndarray result" where
  "HuberRegLoss_eval self x =
     ebind (safe_data_mat_coef_dot (loss_X self) x (loss_fit_intercept self)) (\<lambda>pred.
     ebind (shape_at (loss_X self) 0) (\<lambda>n.
       if n = 0 then Inl ZeroDivisionError
       else ebind (np_sub pred (loss_y self)) (\<lambda>resid.
              Inr (scalar_op (\<lambda>v. (1 / real n) * v) (huber_eval resid (loss_knot self))))))"

definition HuberRegLoss_grad :: "huber_reg_loss \<Rightarrow> ndarray \<Rightarrow> ndarray result" where
  "HuberRegLoss_grad self x =
     ebind (safe_data_mat_coef_dot (loss_X self) x (loss_fit_intercept self)) (\<lambda>pred.
     ebind (np_sub pred (loss_y self)) (\<lambda>resid.
       let g = huber_grad resid (loss_knot self) in
       ebind (shape_at (loss_X self) 0) (\<lambda>n.
         if n = 0 then Inl ZeroDivisionError
         else ebind (np_transpose (loss_X self)) (\<lambda>Xt.
              ebind (np_matmul (scalar_op (\<lambda>v. (1 / real n) * v) Xt) g) (\<lambda>coef_grad.
                if loss_fit_intercept self
                then ebind (np_mean g) (\<lambda>intercept_grad.
                       np_concatenate1 intercept_grad coef_grad)
                else Inr coef_grad)))))"

definition HuberRegLoss :: "huber_reg_loss \<Rightarrow> func" where
  "HuberRegLoss self =
     Leaf \<lparr>priv_eval = Some (HuberRegLoss_eval self),
           priv_grad = Some (HuberRegLoss_grad self),
           priv_prox = None,
           priv_grad_lip = Some (loss_grad_lip self),
           smooth_prop = None,
           proximable_prop = None,
           capabilities_meth = None\<rparr>"

section \<open>The log-sigmoid of \<open>yaglm/opt/glm_loss/logistic_regression.py\<close>\<close>

text \<open>
  \<open>x[idx]\<close> selects the entries of \<open>x\<close> where the mask holds, and \<open>out[idx] = vals\<close>
  writes the values back to those places in order. In \<open>logsig\<close> the masks have the shape
  of \<open>x\<close> and the values are computed from \<open>x[idx]\<close>, one for each selected entry.
\<close>

fun mask_select :: "real list \<Rightarrow> bool list \<Rightarrow> real list" where
  "mask_select (x # xs) (m # ms) = (if m then x # mask_select xs ms else mask_select xs ms)"
| "mask_select xs ms = []"

fun mask_assign :: "real list \<Rightarrow> bool list \<Rightarrow> real list \<Rightarrow> real list" where
  "mask_assign (a # out) (True # ms) (v # vs) = v # mask_assign out ms vs"
| "mask_assign (a # out) (False # ms) vs = a # mask_assign out ms vs"
| "mask_assign out ms vs = out"

definition logsig :: "ndarray \<Rightarrow> ndarray" where
  "logsig x =
     (let out = data (zeros_like x);
          idx0 = map (\<lambda>v. v < -33) (data x);
          out = mask_assign out idx0 (mask_select (data x) idx0);
          idx1 = map (\<lambda>v. v \<ge> -33 \<and> v < -18) (data x);
          out = mask_assign out idx1 (map (\<lambda>v. v - exp v) (mask_select (data x) idx1));
          idx2 = map (\<lambda>v. v \<ge> -18 \<and> v < 37) (data x);
          out = mask_assign out idx2
                  (map (\<lambda>v. - ln (1 + exp (- v))) (mask_select (data x) idx2));
          idx3 = map (\<lambda>v. v \<ge> 37) (data x);
          out = mask_assign out idx3 (map (\<lambda>v. - exp (- v)) (mask_select (data x) idx3))
      in \<lparr>shape = shape x, data = out\<rparr>)"

section \<open>The proximal check of \<open>yaglm/opt/base.py\<close>\<close>

text \<open>
  \<open>scipy.optimize.minimize\<close> is a parameter: it takes the objective, the starting point
  and the optional gradient, and returns an \<open>OptimizeResult\<close>, of which only the field
  \<open>x\<close> is read. Every class of \<open>base.py\<close> is without the method \<open>capabilities\<close>, whose
  definition in \<open>Func\<close> is commented out, so looking it up raises \<open>AttributeError\<close>.
  The printing under \<open>verbosity\<close> does not change what is returned and is left out.
  After the loop \<open>~passes\<close> is computed on \<open>np.array(passes)\<close>, which for no values
  is an empty array of floats, where \<open>~\<close> raises \<open>TypeError\<close>.
\<close>

record optimize_result =
  opt_x :: ndarray

type_synonym minimizer =
  "(ndarray \<Rightarrow> ndarray result) \<Rightarrow> ndarray \<Rightarrow> (ndarray \<Rightarrow> ndarray result) option
     \<Rightarrow> optimize_result result"

fun capabilities :: "func \<Rightarrow> ndarray \<Rightarrow> string list result" where
  "capabilities (Leaf i) x =
     (case capabilities_meth i of None \<Rightarrow> Inl AttributeError | Some c \<Rightarrow> c x)"
| "capabilities (EntrywiseLeaf i) x =
     (case capabilities_meth i of None \<Rightarrow> Inl AttributeError | Some c \<Rightarrow> c x)"
| "capabilities Zero x = Inl AttributeError"
| "capabilities (Sum fs) x = Inl AttributeError"

definition prox_eval :: "func \<Rightarrow> ndarray \<Rightarrow> real \<Rightarrow> ndarray \<Rightarrow> ndarray result" where
  "prox_eval f x step z =
     ebind (eval f z) (\<lambda>fz.
     ebind (np_sub z x) (\<lambda>d.
       np_add (scalar_op (\<lambda>v. step * v) fz)
              (scalar (0.5 * sum_list (map (\<lambda>v. v\<^sup>2) (data d))))))"

definition prox_grad :: "func \<Rightarrow> ndarray \<Rightarrow> real \<Rightarrow> ndarray \<Rightarrow> ndarray result" where
  "prox_grad f x step z =
     ebind (grad f z) (\<lambda>gz.
     ebind (np_sub z x) (\<lambda>d.
       np_add (scalar_op (\<lambda>v. step * v) gz) d))"

definition numeric_prox ::
  "minimizer \<Rightarrow> func \<Rightarrow> ndarray \<Rightarrow> real \<Rightarrow> ndarray option \<Rightarrow> bool
     \<Rightarrow> (ndarray \<times> optimize_result) result" where
  "numeric_prox minimize f x step init force_no_grad =
     (let init' = (case init of None \<Rightarrow> x | Some i \<Rightarrow> i) in
      ebind (if \<not> force_no_grad
             then ebind (capabilities f x) (\<lambda>caps. Inr (''GRAD'' \<in> set caps))
             else Inr False) (\<lambda>use_grad.
      ebind (minimize (prox_eval f x step) init'
               (if use_grad then Some (prox_grad f x step) else None)) (\<lambda>opt_out.
        Inr (opt_x opt_out, opt_out))))"

record prox_errs =
  mad :: real
  max_err :: real
  l2 :: real

record check_report =
  returned :: "(prox_errs list \<times> bool list) option"
  warned :: bool

definition np_allclose :: "ndarray \<Rightarrow> ndarray \<Rightarrow> real \<Rightarrow> real \<Rightarrow> bool result" where
  "np_allclose a b rtol atol =
     ebind (broadcast_pair a b)
       (\<lambda>(t, ps). Inr (list_all (\<lambda>(u, v). \<bar>u - v\<bar> \<le> atol + rtol * \<bar>v\<bar>) ps))"

definition squeeze_single :: "ndarray \<Rightarrow> ndarray result" where
  \<comment> \<open>\<open>if len(b) == 1: b = b.item()\<close>\<close>
  "squeeze_single b =
     (case shape b of
        [] \<Rightarrow> Inl TypeError
      | n # ns \<Rightarrow>
          if n = 1
          then (if prod_list ns = 1 then Inr \<lparr>shape = [], data = data b\<rparr> else Inl ValueError)
          else Inr b)"

definition discrepancy :: "ndarray \<Rightarrow> ndarray \<Rightarrow> prox_errs result" where
  "discrepancy prox_out prox_baseline =
     ebind (np_sub prox_out prox_baseline) (\<lambda>d.
       if data d = [] then Inl ValueError
       else Inr \<lparr>mad = sum_list (map abs (data d)) / real (length (data d)),
                 max_err = Max (set (map abs (data d))),
                 l2 = sqrt (sum_list (map (\<lambda>v. v\<^sup>2) (data d)))\<rparr>)"

fun check_prox_loop ::
  "minimizer \<Rightarrow> func \<Rightarrow> ndarray list \<Rightarrow> real \<Rightarrow> real \<Rightarrow> real \<Rightarrow> string \<Rightarrow> bool
     \<Rightarrow> prox_errs list \<Rightarrow> bool list \<Rightarrow> (prox_errs list \<times> bool list) result" where
  "check_prox_loop minimize f [] step rtol atol behavior force_no_grad errors passes =
     Inr (errors, passes)"
| "check_prox_loop minimize f (x # values) step rtol atol behavior force_no_grad errors passes =
     ebind (prox f x step) (\<lambda>prox_out.
     ebind (numeric_prox minimize f x step (Some prox_out) force_no_grad) (\<lambda>(b, opt_out).
     ebind (squeeze_single b) (\<lambda>prox_baseline.
     ebind (np_allclose prox_out prox_baseline rtol atol) (\<lambda>did_pass.
     ebind (discrepancy prox_out prox_baseline) (\<lambda>errs.
       if behavior = ''error'' \<and> \<not> did_pass then Inl AssertionError
       else check_prox_loop minimize f values step rtol atol behavior force_no_grad
              (errors @ [errs]) (passes @ [did_pass]))))))"

definition check_prox_impl ::
  "minimizer \<Rightarrow> func \<Rightarrow> ndarray list \<Rightarrow> real \<Rightarrow> real \<Rightarrow> real \<Rightarrow> string \<Rightarrow> bool
     \<Rightarrow> check_report result" where
  "check_prox_impl minimize f values step rtol atol behavior force_no_grad =
     (if behavior \<notin> set [''ret'', ''error'', ''warn''] then Inl AssertionError
      else ebind (check_prox_loop minimize f values step rtol atol behavior force_no_grad [] [])
             (\<lambda>(errors, passes).
                if passes = [] then Inl TypeError
                else if behavior = ''ret''
                then Inr \<lparr>returned = Some (errors, passes), warned = False\<rparr>
                else Inr \<lparr>returned = None,
                          warned = (length (filter Not passes) > 0 \<and> behavior = ''warn'')\<rparr>))"

section \<open>Concrete instances\<close>

text \<open>
  A subclass that only sets \<open>_grad_lip\<close>; the entrywise function \<open>t \<mapsto> t\<^sup>2\<close> with its
  gradient \<open>2 t\<close> and its proximal map \<open>t / (1 + 2 step)\<close>, then with the gradient hook
  alone and with the proximal hook alone; and a Lipschitz routine that answers 1 for
  every design matrix.
\<close>

definition lip_only :: "real option \<Rightarrow> impl" where
  "lip_only l =
     \<lparr>priv_eval = None, priv_grad = None, priv_prox = None, priv_grad_lip = l,
      smooth_prop = None, proximable_prop = None, capabilities_meth = None\<rparr>"

definition Square_impl :: impl where
  "Square_impl =
     \<lparr>priv_eval = Some (\<lambda>v. Inr (scalar (sum_list (map (\<lambda>t. t\<^sup>2) (data v))))),
      priv_grad = Some (\<lambda>v. Inr (scalar_op (\<lambda>t. 2 * t) v)),
      priv_prox = Some (\<lambda>v step. Inr (scalar_op (\<lambda>t. t / (1 + 2 * step)) v)),
      priv_grad_lip = Some 2,
      smooth_prop = Some True, proximable_prop = Some True, capabilities_meth = None\<rparr>"

definition Grad_only_impl :: impl where
  "Grad_only_impl =
     \<lparr>priv_eval = None,
      priv_grad = Some (\<lambda>v. Inr (scalar_op (\<lambda>t. 2 * t) v)),
      priv_prox = None,
      priv_grad_lip = None,
      smooth_prop = None, proximable_prop = None, capabilities_meth = None\<rparr>"

definition Prox_only_impl :: impl where
  "Prox_only_impl =
     \<lparr>priv_eval = None,
      priv_grad = None,
      priv_prox = Some (\<lambda>v step. Inr (scalar_op (\<lambda>t. t / (1 + 2 * step)) v)),
      priv_grad_lip = None,
      smooth_prop = None, proximable_prop = None, capabilities_meth = None\<rparr>"

definition example_lip :: "ndarray \<Rightarrow> bool \<Rightarrow> real result" where
  "example_lip X fit_intercept = Inr 1"

section \<open>Properties of the function contract\<close>

lemma np_binop_same_shape:
  "shape a = shape b \<Longrightarrow>
   np_binop f a b = Inr \<lparr>shape = shape a, data = map2 f (data a) (data b)\<rparr>"
  by (simp add: np_binop_def broadcast_pair_def ebind_def)

text \<open>
  C1. For every function, input \<open>x\<close> and step \<open>s > 0\<close>, \<open>conj_prox(x, s)\<close> is
  \<open>x - s * prox(x / s, 1 / s)\<close>: it raises what \<open>prox\<close> raises, and where \<open>prox\<close> returns
  an array \<open>p\<close> of the shape of \<open>x\<close> the result has that shape and the entries
  \<open>x\<^sub>i - s * p\<^sub>i\<close>. \<open>conj_prox\<close> is one definition over all subclasses.
\<close>

theorem conj_prox_moreau:
  assumes "0 < s"
  shows "conj_prox f x s =
           ebind (prox f (scalar_op (\<lambda>a. a / s) x) (1 / s))
             (\<lambda>p. np_sub x (scalar_op (\<lambda>b. s * b) p)) \<and>
         (\<forall>p. prox f (scalar_op (\<lambda>a. a / s) x) (1 / s) = Inr p \<and> shape p = shape x \<longrightarrow>
              conj_prox f x s =
                Inr \<lparr>shape = shape x, data = map2 (\<lambda>a b. a - s * b) (data x) (data p)\<rparr>)"
proof -
  have nz: "s \<noteq> 0" using assms by simp
  have general: "conj_prox f x s =
           ebind (prox f (scalar_op (\<lambda>a. a / s) x) (1 / s))
             (\<lambda>p. np_sub x (scalar_op (\<lambda>b. s * b) p))"
    using nz by (simp add: conj_prox_def)
  have same: "conj_prox f x s =
                Inr \<lparr>shape = shape x, data = map2 (\<lambda>a b. a - s * b) (data x) (data p)\<rparr>"
    if p: "prox f (scalar_op (\<lambda>a. a / s) x) (1 / s) = Inr p" and sh: "shape p = shape x" for p
  proof -
    have "shape x = shape (scalar_op (\<lambda>b. s * b) p)"
      using sh by (simp add: scalar_op_def)
    then have "np_sub x (scalar_op (\<lambda>b. s * b) p) =
        Inr \<lparr>shape = shape x, data = map2 (-) (data x) (map (\<lambda>b. s * b) (data p))\<rparr>"
      unfolding np_sub_def by (simp add: np_binop_same_shape scalar_op_def)
    moreover have "map2 (-) (data x) (map (\<lambda>b. s * b) (data p)) =
        map2 (\<lambda>a b. a - s * b) (data x) (data p)"
      by (simp add: zip_map2 case_prod_unfold)
    ultimately show ?thesis using general p by (simp add: ebind_def)
  qed
  from general same show ?thesis by blast
qed

theorem conj_prox_moreau_witness:
  "conj_prox Zero \<lparr>shape = [2], data = [2, 4]\<rparr> 2 = Inr \<lparr>shape = [2], data = [0, 0]\<rparr>"
  using conj_prox_moreau [of 2 Zero "\<lparr>shape = [2], data = [2, 4]\<rparr>"]
  by (auto simp add: scalar_op_def)

text \<open>
  C2. The proximal check is to compare \<open>prox\<close> with a numerically minimised value for
  every function that implements \<open>prox\<close> and \<open>eval\<close>. With the default arguments it does
  not get there: \<open>numeric_prox\<close> asks the function for \<open>capabilities\<close>, which no class
  of \<open>base.py\<close> has, and the check of \<open>Zero\<close> at any non-empty list of points ends in
  \<open>AttributeError\<close>, whatever the minimiser.
\<close>

theorem check_prox_impl_Zero_raises:
  "check_prox_impl minimize Zero (x # values) step rtol atol ''ret'' False = Inl AttributeError"
  by (simp add: check_prox_impl_def numeric_prox_def ebind_def)

text \<open>
  C8. For every input \<open>x\<close>, \<open>Zero.eval(x)\<close> is 0, \<open>Zero.grad(x)\<close> is the all-zero array of
  the shape of \<open>x\<close>, \<open>Zero.prox(x, step)\<close> is \<open>x\<close> for every step, \<open>Zero.grad_lip\<close> is 0,
  and \<open>is_smooth\<close> and \<open>is_proximable\<close> are true.
\<close>

theorem Zero_contract:
  "eval Zero x = Inr (scalar 0) \<and>
   grad Zero x = Inr \<lparr>shape = shape x, data = replicate (length (data x)) 0\<rparr> \<and>
   prox Zero x step = Inr x \<and>
   grad_lip Zero = Some 0 \<and>
   is_smooth Zero = Inr True \<and>
   is_proximable Zero = Inr True"
  by (simp add: zeros_like_def map_replicate_const)

lemma grad_lip_loop_known:
  "\<forall>f \<in> set fs. grad_lip f \<noteq> None \<Longrightarrow>
   grad_lip_loop lip fs = Some (lip + sum_list (map (\<lambda>f. the (grad_lip f)) fs))"
  by (induction fs arbitrary: lip) (auto split: option.splits)

lemma grad_lip_loop_unknown:
  "\<exists>f \<in> set fs. grad_lip f = None \<Longrightarrow> grad_lip_loop lip fs = None"
  by (induction fs arbitrary: lip) (auto split: option.splits)

text \<open>
  C3. For every \<open>Sum\<close>, \<open>grad_lip\<close> is the sum of the components' \<open>grad_lip\<close> values
  when every component reports one, and \<open>None\<close> as soon as one component reports
  \<open>None\<close>.
\<close>

theorem Sum_grad_lip:
  "grad_lip (Sum fs) =
     (if \<forall>f \<in> set fs. grad_lip f \<noteq> None
      then Some (sum_list (map (\<lambda>f. the (grad_lip f)) fs))
      else None)"
  using grad_lip_loop_known[of fs 0] grad_lip_loop_unknown[of fs 0] by auto

theorem Sum_grad_lip_witness:
  "grad_lip (Sum [Leaf (lip_only (Some 3)), Zero, Leaf (lip_only (Some 2))]) = Some 5 \<and>
   grad_lip (Sum [Leaf (lip_only (Some 3)), Leaf (lip_only None)]) = None"
  using Sum_grad_lip [of "[Leaf (lip_only (Some 3)), Zero, Leaf (lip_only (Some 2))]"]
        Sum_grad_lip [of "[Leaf (lip_only (Some 3)), Leaf (lip_only None)]"]
  by (simp add: lip_only_def)

text \<open>
  C9. For every entrywise function and an input of any shape, \<open>grad\<close> and \<open>prox\<close> each
  hand their own hook the flattened input, of shape \<open>[size]\<close> and with the entries of the
  input; where that hook applies a scalar rule to every entry of it, the result has
  exactly the shape of the input and the rule's value at each entry. Each method needs
  its own hook only.
\<close>

theorem Entrywise_keeps_shape:
  "shape (reshape_flat x) = [prod_list (shape x)] \<and>
   data (reshape_flat x) = data x \<and>
   (priv_grad i = Some g \<and> g (reshape_flat x) = Inr (scalar_op rg (reshape_flat x)) \<longrightarrow>
      grad (EntrywiseLeaf i) x = Inr \<lparr>shape = shape x, data = map rg (data x)\<rparr>) \<and>
   (priv_prox i = Some p \<and> p (reshape_flat x) step = Inr (scalar_op rp (reshape_flat x)) \<longrightarrow>
      prox (EntrywiseLeaf i) x step = Inr \<lparr>shape = shape x, data = map rp (data x)\<rparr>)"
proof -
  have flat: "shape (reshape_flat x) = [prod_list (shape x)]" "data (reshape_flat x) = data x"
    by (simp_all add: reshape_flat_def)
  have unflat: "reshape (scalar_op r (reshape_flat x)) (shape x) =
                Inr \<lparr>shape = shape x, data = map r (data x)\<rparr>" for r
    by (simp add: reshape_def scalar_op_def reshape_flat_def)
  have grad_part: "grad (EntrywiseLeaf i) x = Inr \<lparr>shape = shape x, data = map rg (data x)\<rparr>"
    if "priv_grad i = Some g" "g (reshape_flat x) = Inr (scalar_op rg (reshape_flat x))"
    using that by (simp add: call_hook_def ebind_def unflat)
  have prox_part: "prox (EntrywiseLeaf i) x step = Inr \<lparr>shape = shape x, data = map rp (data x)\<rparr>"
    if "priv_prox i = Some p" "p (reshape_flat x) step = Inr (scalar_op rp (reshape_flat x))"
    using that by (simp add: call_hook2_def ebind_def unflat)
  from flat grad_part prox_part show ?thesis by blast
qed

theorem Entrywise_keeps_shape_witness:
  "grad (EntrywiseLeaf Grad_only_impl) \<lparr>shape = [2, 1, 2], data = [1, 2, 3, 4]\<rparr> =
     Inr \<lparr>shape = [2, 1, 2], data = [2, 4, 6, 8]\<rparr> \<and>
   prox (EntrywiseLeaf Prox_only_impl) \<lparr>shape = [2, 1, 2], data = [1, 2, 3, 4]\<rparr> 1 =
     Inr \<lparr>shape = [2, 1, 2], data = [1 / 3, 2 / 3, 1, 4 / 3]\<rparr> \<and>
   prox (EntrywiseLeaf Square_impl) \<lparr>shape = [2, 2], data = [3, 6, 9, 12]\<rparr> 1 =
     Inr \<lparr>shape = [2, 2], data = [1, 2, 3, 4]\<rparr>"
  using Entrywise_keeps_shape [of "\<lparr>shape = [2, 1, 2], data = [1, 2, 3, 4]\<rparr>"
          Grad_only_impl "\<lambda>v. Inr (scalar_op (\<lambda>t. 2 * t) v)" "\<lambda>t. 2 * t"]
        Entrywise_keeps_shape [of "\<lparr>shape = [2, 1, 2], data = [1, 2, 3, 4]\<rparr>"
          Prox_only_impl _ _ "\<lambda>v step. Inr (scalar_op (\<lambda>t. t / (1 + 2 * step)) v)" 1
          "\<lambda>t. t / (1 + 2 * 1)"]
        Entrywise_keeps_shape [of "\<lparr>shape = [2, 2], data = [3, 6, 9, 12]\<rparr>"
          Square_impl _ _ "\<lambda>v step. Inr (scalar_op (\<lambda>t. t / (1 + 2 * step)) v)" 1
          "\<lambda>t. t / (1 + 2 * 1)"]
  by (simp add: Grad_only_impl_def Prox_only_impl_def Square_impl_def)

text \<open>
  C10. For the \<open>Sum\<close> of no components and every input \<open>x\<close>: \<open>eval(x)\<close> is 0,
  \<open>grad(x)\<close> is the scalar 0, which is not the zero array of the shape of \<open>x\<close> unless
  \<open>x\<close> is itself a scalar, \<open>grad_lip\<close> is 0 and not \<open>None\<close>, \<open>is_smooth\<close> is true and
  \<open>is_proximable\<close> is false.
\<close>

theorem Sum_empty:
  "eval (Sum []) x = Inr (scalar 0) \<and>
   grad (Sum []) x = Inr (scalar 0) \<and>
   (shape x \<noteq> [] \<longrightarrow> grad (Sum []) x \<noteq> Inr (zeros_like x)) \<and>
   grad_lip (Sum []) = Some 0 \<and>
   is_smooth (Sum []) = Inr True \<and>
   is_proximable (Sum []) = Inr False"
  by (auto simp add: scalar_def zeros_like_def)

theorem Sum_empty_witness:
  "grad (Sum []) \<lparr>shape = [2], data = [1, 2]\<rparr> = Inr \<lparr>shape = [], data = [0]\<rparr> \<and>
   grad (Sum []) \<lparr>shape = [2], data = [1, 2]\<rparr> \<noteq> Inr \<lparr>shape = [2], data = [0, 0]\<rparr>"
  using Sum_empty [of "\<lparr>shape = [2], data = [1, 2]\<rparr>"]
  by (simp add: scalar_def zeros_like_def)

section \<open>Properties of the Huber and logistic kernels\<close>

text \<open>
  C5. For every real \<open>z\<close> and knot \<open>k \<ge> 0\<close>, the Huber eval kernel is \<open>0.5 z\<^sup>2\<close> when
  \<open>|z| \<le> k\<close> and \<open>k (|z| - 0.5 k)\<close> otherwise, the gradient kernel is \<open>z\<close> when
  \<open>|z| \<le> k\<close> and \<open>k sign(z)\<close> otherwise, and at \<open>|z| = k\<close> the two branches of each
  kernel agree.
\<close>

theorem huber_kernels:
  assumes "0 \<le> k"
  shows "huber_eval_1d z k = (if \<bar>z\<bar> \<le> k then 0.5 * z\<^sup>2 else k * (\<bar>z\<bar> - 0.5 * k)) \<and>
         huber_grad_1d z k = (if \<bar>z\<bar> \<le> k then z else k * sgn z) \<and>
         (\<bar>z\<bar> = k \<longrightarrow> 0.5 * z\<^sup>2 = k * (\<bar>z\<bar> - 0.5 * k) \<and> z = k * sgn z)"
proof -
  have "0.5 * z\<^sup>2 = k * (\<bar>z\<bar> - 0.5 * k)" if "\<bar>z\<bar> = k"
  proof -
    have "z\<^sup>2 = k * k" using that by (metis power2_abs power2_eq_square)
    then show ?thesis using that by (simp add: algebra_simps)
  qed
  moreover have "z = k * sgn z" if "\<bar>z\<bar> = k"
    using that by (simp add: sgn_real_def abs_real_def split: if_splits)
  ultimately show ?thesis
    by (simp add: huber_eval_1d_def huber_grad_1d_def Let_def)
qed

theorem huber_kernels_witness:
  "huber_eval_1d 2 2 = 2 \<and> huber_grad_1d 2 2 = 2 \<and>
   huber_eval_1d 3 2 = 4 \<and> huber_grad_1d (-3) 2 = -2"
  using huber_kernels [of 2 2] huber_kernels [of 2 3] huber_kernels [of 2 "-3"]
  by simp

lemma mask_assign_map:
  "mask_assign (map h xs) (map P xs) (map f (mask_select xs (map P xs))) =
     map (\<lambda>v. if P v then f v else h v) xs"
  by (induction xs) auto

lemma mask_assign_id:
  "mask_assign (map h xs) (map P xs) (mask_select xs (map P xs)) =
     map (\<lambda>v. if P v then v else h v) xs"
  using mask_assign_map [of h xs P "\<lambda>v. v"] by simp

text \<open>
  C6. For every input array, \<open>logsig\<close> keeps the shape and computes each entry \<open>v\<close> by
  the four regions with thresholds -33, -18 and 37: \<open>v\<close> below -33, \<open>v - exp(v)\<close> from
  -33 up to -18, \<open>-log1p(exp(-v))\<close> from -18 up to 37, and \<open>-exp(-v)\<close> from 37 on.
\<close>

theorem logsig_piecewise:
  "logsig x =
     \<lparr>shape = shape x,
      data = map (\<lambda>v. if v < -33 then v
                       else if v < -18 then v - exp v
                       else if v < 37 then - ln (1 + exp (- v))
                       else - exp (- v)) (data x)\<rparr>"
  unfolding logsig_def Let_def zeros_like_def
  by (simp add: mask_assign_id mask_assign_map)

section \<open>Properties of the Huber regression loss\<close>

text \<open>
  C4, as stated. Constructing \<open>HuberRegLoss\<close> with a design matrix of 2 rows and a
  response of 3 entries, and \<open>HuberRegMultiRespLoss\<close> with 2 and 3 rows, raises nothing:
  both return the object.
\<close>

theorem init_accepts_row_mismatch:
  "shape_at \<lparr>shape = [2, 1], data = [1, 2]\<rparr> 0 = Inr 2 \<and>
   shape_at \<lparr>shape = [3], data = [1, 2, 3]\<rparr> 0 = Inr 3 \<and>
   HuberRegLoss_init example_lip \<lparr>shape = [2, 1], data = [1, 2]\<rparr>
       \<lparr>shape = [3], data = [1, 2, 3]\<rparr> 1.35 True (Some 1) =
     Inr \<lparr>loss_fit_intercept = True, loss_X = \<lparr>shape = [2, 1], data = [1, 2]\<rparr>,
          loss_y = \<lparr>shape = [3], data = [1, 2, 3]\<rparr>, loss_knot = 1.35, loss_grad_lip = 1\<rparr> \<and>
   shape_at \<lparr>shape = [3, 1], data = [1, 2, 3]\<rparr> 0 = Inr 3 \<and>
   HuberRegMultiRespLoss_init example_lip \<lparr>shape = [2, 1], data = [1, 2]\<rparr>
       \<lparr>shape = [3, 1], data = [1, 2, 3]\<rparr> 1.35 True (Some 1) =
     Inr \<lparr>loss_fit_intercept = True, loss_X = \<lparr>shape = [2, 1], data = [1, 2]\<rparr>,
          loss_y = \<lparr>shape = [3, 1], data = [1, 2, 3]\<rparr>, loss_knot = 1.35, loss_grad_lip = 1,
          coef_shape = [2, 1]\<rparr>"
  by (simp add: shape_at_def HuberRegLoss_init_def HuberRegMultiRespLoss_init_def
      example_lip_def ebind_def)

text \<open>
  C4, amended. The constructors never compare the row counts of \<open>X\<close> and \<open>y\<close>. With
  differing row counts, \<open>HuberRegLoss\<close> returns the object holding \<open>X\<close> and \<open>y\<close> as
  given whenever \<open>lip\<close> is supplied or \<open>get_lin_reg_lip(X, fit_intercept)\<close> returns, and
  so does \<open>HuberRegMultiRespLoss\<close> whenever \<open>X\<close> and \<open>y\<close> also have a second axis.
\<close>

theorem init_never_compares_rows:
  assumes "shape_at X 0 \<noteq> shape_at y 0"
    and "lip = Some l \<or> (lip = None \<and> glr X fit_intercept = Inr l)"
  shows "HuberRegLoss_init glr X y knot fit_intercept lip =
           Inr \<lparr>loss_fit_intercept = fit_intercept, loss_X = X, loss_y = y,
                loss_knot = knot, loss_grad_lip = l\<rparr> \<and>
         (\<forall>d k. shape_at X 1 = Inr d \<and> shape_at y 1 = Inr k \<longrightarrow>
            HuberRegMultiRespLoss_init glr X y knot fit_intercept lip =
              Inr \<lparr>loss_fit_intercept = fit_intercept, loss_X = X, loss_y = y,
                   loss_knot = knot, loss_grad_lip = l,
                   coef_shape = (if fit_intercept then [d + 1, k] else [d, k])\<rparr>)"
  using assms(2)
  by (auto simp add: HuberRegLoss_init_def HuberRegMultiRespLoss_init_def ebind_def)

theorem init_never_compares_rows_witness:
  "HuberRegLoss_init example_lip \<lparr>shape = [2, 1], data = [1, 2]\<rparr>
       \<lparr>shape = [3, 1], data = [1, 2, 3]\<rparr> 2 False (Some 4) =
     Inr \<lparr>loss_fit_intercept = False, loss_X = \<lparr>shape = [2, 1], data = [1, 2]\<rparr>,
          loss_y = \<lparr>shape = [3, 1], data = [1, 2, 3]\<rparr>, loss_knot = 2, loss_grad_lip = 4\<rparr> \<and>
   HuberRegMultiRespLoss_init example_lip \<lparr>shape = [2, 1], data = [1, 2]\<rparr>
       \<lparr>shape = [3, 1], data = [1, 2, 3]\<rparr> 2 False (Some 4) =
     Inr \<lparr>loss_fit_intercept = False, loss_X = \<lparr>shape = [2, 1], data = [1, 2]\<rparr>,
          loss_y = \<lparr>shape = [3, 1], data = [1, 2, 3]\<rparr>, loss_knot = 2, loss_grad_lip = 4,
          coef_shape = [1, 1]\<rparr>"
  using init_never_compares_rows [of "\<lparr>shape = [2, 1], data = [1, 2]\<rparr>"
          "\<lparr>shape = [3, 1], data = [1, 2, 3]\<rparr>" "Some 4" 4 example_lip False 2]
  by (simp add: shape_at_def)

lemma length_concat_grid:
  "length (concat (map (\<lambda>j. map (f j) [0..<r]) [0..<c])) = c * r"
  by (induction c) simp_all

lemma concat_grid_nth:
  "i < r \<Longrightarrow> j < c \<Longrightarrow> concat (map (\<lambda>j. map (f j) [0..<r]) [0..<c]) ! (j * r + i) = f j i"
proof (induction c)
  case 0
  then show ?case by simp
next
  case (Suc c)
  show ?case
  proof (cases "j < c")
    case True
    then have "j * r + i < c * r"
    proof -
      have "j * r + i < j * r + r" using Suc.prems(1) by simp
      also have "\<dots> = Suc j * r" by simp
      also have "\<dots> \<le> c * r" using True by (intro mult_le_mono1) simp
      finally show ?thesis .
    qed
    then show ?thesis
      using Suc True by (simp add: nth_append length_concat_grid)
  next
    case False
    then have "j = c" using Suc.prems(2) by simp
    then show ?thesis
      using Suc.prems(1) by (simp add: nth_append length_concat_grid)
  qed
qed

lemma matmul_2d_1d:
  "shape a = [r, c] \<Longrightarrow> shape v = [c] \<Longrightarrow>
   np_matmul a v =
     Inr \<lparr>shape = [r],
          data = map (\<lambda>i. sum_list (map (\<lambda>j. data a ! (i * c + j) * data v ! j) [0..<c]))
                     [0..<r]\<rparr>"
  by (simp add: np_matmul_def)

lemma dot_pred:
  assumes "shape X = [n, d]" "shape x = [Suc d]" "wf x"
  shows "safe_data_mat_coef_dot X x True =
     Inr \<lparr>shape = [n],
          data = map (\<lambda>i. sum_list (map (\<lambda>j. data X ! (i * d + j) * data x ! Suc j) [0..<d])
                            + data x ! 0) [0..<n]\<rparr>"
proof -
  from assms(2,3) have len: "length (data x) = Suc d" by (simp add: wf_def)
  then obtain b beta where bb: "data x = b # beta" by (cases "data x") auto
  show ?thesis
    using assms(1,2) bb
    by (simp add: safe_data_mat_coef_dot_def matmul_2d_1d ebind_def scalar_op_def)
qed


lemma map2_as_upt:
  "length xs = n \<Longrightarrow> length ys = n \<Longrightarrow>
   map2 f xs ys = map (\<lambda>i. f (xs ! i) (ys ! i)) [0..<n]"
  by (rule nth_equalityI) simp_all

lemma transpose_2d:
  "shape X = [n, d] \<Longrightarrow>
   np_transpose X =
     Inr \<lparr>shape = [d, n],
          data = concat (map (\<lambda>j. map (\<lambda>i. data X ! (i * d + j)) [0..<n]) [0..<d])\<rparr>"
  by (simp add: np_transpose_def)

lemma scaled_transpose_dot:
  fixes c :: real
  assumes "j < d"
  shows "sum_list (map (\<lambda>i. map ((*) c)
                          (concat (map (\<lambda>j. map (\<lambda>i. M ! (i * d + j)) [0..<n]) [0..<d]))
                        ! (j * n + i) * G ! i) [0..<n]) =
         c * sum_list (map (\<lambda>i. M ! (i * d + j) * G ! i) [0..<n])"
proof -
  have entry: "map ((*) c)
                 (concat (map (\<lambda>j. map (\<lambda>i. M ! (i * d + j)) [0..<n]) [0..<d])) ! (j * n + i) =
               c * M ! (i * d + j)" if "i < n" for i
  proof -
    have "j * n + i < j * n + n" using that by simp
    also have "\<dots> = Suc j * n" by simp
    also have "\<dots> \<le> d * n" using assms(1) by (intro mult_le_mono1) simp
    finally have "j * n + i < d * n" .
    then show ?thesis
      using that assms(1) by (simp add: length_concat_grid concat_grid_nth)
  qed
  have "map (\<lambda>i. map ((*) c)
                          (concat (map (\<lambda>j. map (\<lambda>i. M ! (i * d + j)) [0..<n]) [0..<d]))
                        ! (j * n + i) * G ! i) [0..<n] =
        map (\<lambda>i. c * (M ! (i * d + j) * G ! i)) [0..<n]"
    by (rule map_cong) (simp_all add: entry)
  then show ?thesis
    by (simp only: sum_list_const_mult)
qed

lemma HuberRegLoss_grad_formula:
  assumes X: "shape X = [n, d]" and n: "0 < n"
    and y: "shape y = [n]" "wf y" and x: "shape x = [Suc d]" "wf x"
    and self: "loss_X self = X" "loss_y self = y" "loss_knot self = k" "loss_fit_intercept self"
  defines "pred \<equiv> map (\<lambda>i. sum_list (map (\<lambda>j. data X ! (i * d + j) * data x ! Suc j) [0..<d])
                            + data x ! 0) [0..<n]"
  defines "g \<equiv> map (\<lambda>i. huber_grad_1d (pred ! i - data y ! i) k) [0..<n]"
  shows "HuberRegLoss_grad self x =
           Inr \<lparr>shape = [Suc d],
                data = sum_list g / real n #
                       map (\<lambda>j. sum_list (map (\<lambda>i. data X ! (i * d + j) * g ! i) [0..<n]) / real n)
                           [0..<d]\<rparr>"
proof -
  have leny: "length (data y) = n" using y by (simp add: wf_def)
  have lenp: "length pred = n" by (simp add: pred_def)
  have dot: "safe_data_mat_coef_dot X x True = Inr \<lparr>shape = [n], data = pred\<rparr>"
    unfolding pred_def by (rule dot_pred [OF X x])
  have sub: "np_sub \<lparr>shape = [n], data = pred\<rparr> y =
               Inr \<lparr>shape = [n], data = map (\<lambda>i. pred ! i - data y ! i) [0..<n]\<rparr>"
    unfolding np_sub_def using y(1) lenp leny
    by (simp add: np_binop_same_shape map2_as_upt [of pred n "data y"])
  have hg: "huber_grad \<lparr>shape = [n], data = map (\<lambda>i. pred ! i - data y ! i) [0..<n]\<rparr> k =
              \<lparr>shape = [n], data = g\<rparr>"
    by (simp add: huber_grad_def safe_vectorize_def g_def comp_def)
  have gne: "g \<noteq> []" using n by (simp add: g_def)
  have leng: "length g = n" by (simp add: g_def)
  have mm: "np_matmul (scalar_op ((*) (1 / real n))
               \<lparr>shape = [d, n],
                data = concat (map (\<lambda>j. map (\<lambda>i. data X ! (i * d + j)) [0..<n]) [0..<d])\<rparr>)
             \<lparr>shape = [n], data = g\<rparr> =
           Inr \<lparr>shape = [d],
                data = map (\<lambda>j. sum_list (map (\<lambda>i. data X ! (i * d + j) * g ! i) [0..<n]) / real n)
                           [0..<d]\<rparr>"
  proof -
    have "map (\<lambda>j. sum_list (map (\<lambda>i. map ((*) (1 / real n))
                 (concat (map (\<lambda>j. map (\<lambda>i. data X ! (i * d + j)) [0..<n]) [0..<d]))
                 ! (j * n + i) * g ! i) [0..<n])) [0..<d] =
          map (\<lambda>j. sum_list (map (\<lambda>i. data X ! (i * d + j) * g ! i) [0..<n]) / real n) [0..<d]"
      by (rule map_cong) (simp_all add: scaled_transpose_dot)
    then show ?thesis
      by (simp add: matmul_2d_1d scalar_op_def)
  qed
  show ?thesis
    unfolding HuberRegLoss_grad_def
    using self dot sub hg gne leng n X
    by (simp add: mm ebind_def Let_def shape_at_def transpose_2d np_mean_def np_concatenate1_def)
qed


lemma HuberRegLoss_eval_formula:
  assumes X: "shape X = [n, d]" and n: "0 < n"
    and y: "shape y = [n]" "wf y" and x: "shape x = [Suc d]" "wf x"
    and self: "loss_X self = X" "loss_y self = y" "loss_knot self = k" "loss_fit_intercept self"
  defines "pred \<equiv> map (\<lambda>i. sum_list (map (\<lambda>j. data X ! (i * d + j) * data x ! Suc j) [0..<d])
                            + data x ! 0) [0..<n]"
  shows "HuberRegLoss_eval self x =
           Inr (scalar (sum_list (map (\<lambda>i. huber_eval_1d (pred ! i - data y ! i) k) [0..<n])
                        / real n))"
proof -
  have leny: "length (data y) = n" using y by (simp add: wf_def)
  have lenp: "length pred = n" by (simp add: pred_def)
  have dot: "safe_data_mat_coef_dot X x True = Inr \<lparr>shape = [n], data = pred\<rparr>"
    unfolding pred_def by (rule dot_pred [OF X x])
  have sub: "np_sub \<lparr>shape = [n], data = pred\<rparr> y =
               Inr \<lparr>shape = [n], data = map (\<lambda>i. pred ! i - data y ! i) [0..<n]\<rparr>"
    unfolding np_sub_def using y(1) lenp leny
    by (simp add: np_binop_same_shape map2_as_upt [of pred n "data y"])
  have he: "huber_eval \<lparr>shape = [n], data = map (\<lambda>i. pred ! i - data y ! i) [0..<n]\<rparr> k =
              scalar (sum_list (map (\<lambda>i. huber_eval_1d (pred ! i - data y ! i) k) [0..<n]))"
    by (simp add: huber_eval_def safe_vectorize_def comp_def)
  show ?thesis
    unfolding HuberRegLoss_eval_def
    using self dot sub n X
    by (simp add: he ebind_def shape_at_def scalar_def scalar_op_def)
qed

lemma huber_eval_1d_even: "huber_eval_1d (- v) k = huber_eval_1d v k"
  by (simp add: huber_eval_1d_def Let_def)

lemma huber_grad_1d_odd: "huber_grad_1d (- v) k = - huber_grad_1d v k"
  by (simp add: huber_grad_1d_def)

lemma map_over_indices: "length ys = n \<Longrightarrow> map (\<lambda>i. f (ys ! i)) [0..<n] = map f ys"
  by (rule nth_equalityI) simp_all

lemma pred_at_zeros:
  assumes "data x = replicate (Suc d) 0" "i < n"
  shows "map (\<lambda>i. sum_list (map (\<lambda>j. M ! (i * d + j) * data x ! Suc j) [0..<d])
                            + data x ! 0) [0..<n] ! i = (0 :: real)"
proof -
  have "map (\<lambda>j. M ! (i * d + j) * data x ! Suc j) [0..<d] = map (\<lambda>j. 0) [0..<d]"
    by (rule map_cong) (simp_all add: assms(1))
  then have s: "sum_list (map (\<lambda>j. M ! (i * d + j) * data x ! Suc j) [0..<d]) = 0"
    by (simp only: sum_list_0)
  have x0: "data x ! 0 = 0" using assms(1) by simp
  show ?thesis using assms(2) s x0 by simp
qed

text \<open>
  C7. The base class of \<open>HuberRegLoss\<close> is taken to be the \<open>Func\<close> of \<open>base.py\<close>. For
  a design matrix of \<open>n > 0\<close> rows and \<open>d\<close> columns, a response of \<open>n\<close> entries and
  \<open>fit_intercept\<close> set, \<open>grad(x)\<close> at a coefficient vector of length \<open>d + 1\<close> is the
  vector of length \<open>d + 1\<close> whose first entry is the mean of \<open>g\<close> and whose other entries
  are \<open>(1/n) X\<^sup>T g\<close>, for \<open>g\<close> the gradient kernel at the residual, prediction minus
  \<open>y\<close>. At \<open>x = 0\<close>, \<open>eval\<close> is \<open>(1/n) \<Sum> huber(y\<^sub>i)\<close>, and the first entry of the
  gradient is the mean of \<open>huber_grad(-y\<^sub>i)\<close>, the residual being \<open>-y\<close>, which is minus
  the mean of \<open>huber_grad(y\<^sub>i)\<close>.
\<close>

theorem HuberRegLoss_intercept_first:
  assumes X: "shape X = [n, d]" "wf X" and n: "0 < n"
    and y: "shape y = [n]" "wf y" and x: "shape x = [Suc d]" "wf x"
    and self: "loss_X self = X" "loss_y self = y" "loss_knot self = k" "loss_fit_intercept self"
  shows "(let pred = map (\<lambda>i. sum_list (map (\<lambda>j. data X ! (i * d + j) * data x ! Suc j) [0..<d])
                                + data x ! 0) [0..<n];
              g = map (\<lambda>i. huber_grad_1d (pred ! i - data y ! i) k) [0..<n]
          in grad (HuberRegLoss self) x =
               Inr \<lparr>shape = [Suc d],
                    data = sum_list g / real n #
                           map (\<lambda>j. sum_list (map (\<lambda>i. data X ! (i * d + j) * g ! i) [0..<n])
                                      / real n) [0..<d]\<rparr>) \<and>
         (data x = replicate (Suc d) 0 \<longrightarrow>
            eval (HuberRegLoss self) x =
              Inr (scalar (sum_list (map (\<lambda>v. huber_eval_1d v k) (data y)) / real n)) \<and>
            (\<exists>r. grad (HuberRegLoss self) x = Inr r \<and> shape r = [Suc d] \<and>
                 data r ! 0 = sum_list (map (\<lambda>v. huber_grad_1d (- v) k) (data y)) / real n \<and>
                 data r ! 0 = - (sum_list (map (\<lambda>v. huber_grad_1d v k) (data y)) / real n)))"
proof -
  have leny: "length (data y) = n" using y by (simp add: wf_def)
  have G: "grad (HuberRegLoss self) x = HuberRegLoss_grad self x"
    and E: "eval (HuberRegLoss self) x = HuberRegLoss_eval self x"
    by (simp_all add: HuberRegLoss_def call_hook_def)
  note gf = HuberRegLoss_grad_formula [OF X(1) n y x self]
  note ef = HuberRegLoss_eval_formula [OF X(1) n y x self]
  have first: ?thesis if z: "data x \<noteq> replicate (Suc d) 0"
    using z gf by (simp add: G Let_def)
  have second: ?thesis if z: "data x = replicate (Suc d) 0"
  proof -
    let ?pred = "map (\<lambda>i. sum_list (map (\<lambda>j. data X ! (i * d + j) * data x ! Suc j) [0..<d])
                                + data x ! 0) [0..<n]"
    have ev: "map (\<lambda>i. huber_eval_1d (?pred ! i - data y ! i) k) [0..<n] =
              map (\<lambda>v. huber_eval_1d v k) (data y)"
    proof -
      have "map (\<lambda>i. huber_eval_1d (?pred ! i - data y ! i) k) [0..<n] =
            map (\<lambda>i. huber_eval_1d (data y ! i) k) [0..<n]"
        by (rule map_cong) (simp_all only: pred_at_zeros [OF z] atLeast_upt [symmetric]
              lessThan_iff diff_0 huber_eval_1d_even)
      then show ?thesis using map_over_indices [OF leny, of "\<lambda>v. huber_eval_1d v k"] by simp
    qed
    have gr: "map (\<lambda>i. huber_grad_1d (?pred ! i - data y ! i) k) [0..<n] =
              map (\<lambda>v. huber_grad_1d (- v) k) (data y)"
    proof -
      have "map (\<lambda>i. huber_grad_1d (?pred ! i - data y ! i) k) [0..<n] =
            map (\<lambda>i. huber_grad_1d (- (data y ! i)) k) [0..<n]"
        by (rule map_cong) (simp_all only: pred_at_zeros [OF z] atLeast_upt [symmetric]
              lessThan_iff diff_0)
      then show ?thesis using map_over_indices [OF leny, of "\<lambda>v. huber_grad_1d (- v) k"] by simp
    qed
    have neg: "sum_list (map (\<lambda>v. huber_grad_1d (- v) k) (data y)) =
               - sum_list (map (\<lambda>v. huber_grad_1d v k) (data y))"
      by (simp add: huber_grad_1d_odd uminus_sum_list_map comp_def)
    have e: "eval (HuberRegLoss self) x =
              Inr (scalar (sum_list (map (\<lambda>v. huber_eval_1d v k) (data y)) / real n))"
      using ef ev by (simp add: E)
    have g: "grad (HuberRegLoss self) x =
               Inr \<lparr>shape = [Suc d],
                    data = sum_list (map (\<lambda>v. huber_grad_1d (- v) k) (data y)) / real n #
                           map (\<lambda>j. sum_list (map (\<lambda>i. data X ! (i * d + j) *
                                  map (\<lambda>v. huber_grad_1d (- v) k) (data y) ! i) [0..<n])
                                      / real n) [0..<d]\<rparr>"
      using gf gr by (simp add: G)
    show ?thesis
      using e g gf neg by (simp add: G Let_def)
  qed
  from first second show ?thesis by blast
qed

theorem HuberRegLoss_intercept_first_witness:
  "grad (HuberRegLoss \<lparr>loss_fit_intercept = True, loss_X = \<lparr>shape = [2, 1], data = [1, 2]\<rparr>,
           loss_y = \<lparr>shape = [2], data = [1, 5]\<rparr>, loss_knot = 2, loss_grad_lip = 1\<rparr>)
        \<lparr>shape = [2], data = [0, 0]\<rparr> =
     Inr \<lparr>shape = [2], data = [- 3 / 2, - 5 / 2]\<rparr> \<and>
   eval (HuberRegLoss \<lparr>loss_fit_intercept = True, loss_X = \<lparr>shape = [2, 1], data = [1, 2]\<rparr>,
           loss_y = \<lparr>shape = [2], data = [1, 5]\<rparr>, loss_knot = 2, loss_grad_lip = 1\<rparr>)
        \<lparr>shape = [2], data = [0, 0]\<rparr> =
     Inr (scalar (17 / 4))"
  using HuberRegLoss_intercept_first [of "\<lparr>shape = [2, 1], data = [1, 2]\<rparr>" 2 1
          "\<lparr>shape = [2], data = [1, 5]\<rparr>" "\<lparr>shape = [2], data = [0, 0]\<rparr>"
          "\<lparr>loss_fit_intercept = True, loss_X = \<lparr>shape = [2, 1], data = [1, 2]\<rparr>,
           loss_y = \<lparr>shape = [2], data = [1, 5]\<rparr>, loss_knot = 2, loss_grad_lip = 1\<rparr>" 2]
  by (simp add: wf_def Let_def huber_grad_1d_def huber_eval_1d_def numeral_2_eq_2)

end
